theory Spec2Isabelle
  imports Complex_Main
begin

section \<open>Python values and errors\<close>

text \<open>
  The experiments of qiskit-experiments pass dynamically typed values through dictionaries
  (circuit metadata, experiment-data metadata, experiment options). Only the shapes that the
  modelled functions store or read are represented. Python floats are abstracted as reals:
  rounding, infinities and NaN are not modelled, only the comparisons and the arithmetic the
  code writes.
\<close>

datatype pyval =
    PyNone
  | PyInt int
  | PyFloat real
  | PyStr string
  | PyTuple "int list"

datatype py_error = KeyError | TypeError | ValueError | CalibrationError

text \<open>Subscripting a dictionary: \<^verbatim>\<open>d[k]\<close> raises KeyError when the key is missing.\<close>

definition getitem :: "('k \<rightharpoonup> 'v) \<Rightarrow> 'k \<Rightarrow> py_error + 'v" where
  "getitem d k = (case d k of None \<Rightarrow> Inl KeyError | Some v \<Rightarrow> Inr v)"

text \<open>A value used as an operand of float arithmetic: numbers only, anything else is a TypeError.\<close>

fun as_number :: "pyval \<Rightarrow> py_error + real" where
  "as_number (PyInt i) = Inr (real_of_int i)"
| "as_number (PyFloat r) = Inr r"
| "as_number v = Inl TypeError"

section \<open>Fit data and quality labels\<close>

text \<open>
  \<^verbatim>\<open>FitVal\<close>: a fitted value with its standard error; the standard error is
  \<^verbatim>\<open>None\<close> when it could not be estimated.
\<close>

record fit_val =
  fv_value :: real
  fv_stderr :: "real option"

record fit_data =
  fd_params :: "string \<rightharpoonup> fit_val"
  reduced_chisq :: real
  dof :: int

text \<open>
  Modelled from the spec: \<^verbatim>\<open>FitData.fitval\<close> lives in the curve-analysis package, which is
  not among the sources. The spec describes FitData as a mapping from parameter name to
  (value, standard error); asking for a parameter the fit does not have is an error.
\<close>

definition fitval :: "fit_data \<Rightarrow> string \<Rightarrow> py_error + fit_val" where
  "fitval fit_data key =
     (case fd_params fit_data key of None \<Rightarrow> Inl ValueError | Some v \<Rightarrow> Inr v)"

datatype quality = Good | Bad

text \<open>Python's \<^verbatim>\<open>all\<close> on a list of booleans.\<close>

fun py_all :: "bool list \<Rightarrow> bool" where
  "py_all [] = True"
| "py_all (b # bs) = (if b then py_all bs else False)"

text \<open>
  The analysis object (\<^verbatim>\<open>self\<close> of the analysis methods). The only part of it the modelled
  methods can reach is the dictionary behind \<^verbatim>\<open>self._experiment_options()\<close>.
\<close>

record curve_analysis =
  ca_experiment_options :: "string \<rightharpoonup> pyval"

subsection \<open>T1Analysis._evaluate_quality\<close>

definition T1Analysis_evaluate_quality :: "curve_analysis \<Rightarrow> fit_data \<Rightarrow> py_error + quality" where
  "T1Analysis_evaluate_quality self fit_data =
     (case fitval fit_data ''amp'' of Inl e \<Rightarrow> Inl e | Inr amp \<Rightarrow>
     (case fitval fit_data ''tau'' of Inl e \<Rightarrow> Inl e | Inr tau \<Rightarrow>
     (case fitval fit_data ''base'' of Inl e \<Rightarrow> Inl e | Inr base \<Rightarrow>
        (let criteria =
           [ reduced_chisq fit_data < 3,
             \<bar>fv_value amp - 1.0\<bar> < 0.1,
             \<bar>fv_value base\<bar> < 0.1,
             (case fv_stderr amp of None \<Rightarrow> True | Some s \<Rightarrow> s < 0.1),
             (case fv_stderr tau of None \<Rightarrow> True | Some s \<Rightarrow> s < fv_value tau),
             (case fv_stderr base of None \<Rightarrow> True | Some s \<Rightarrow> s < 0.1) ]
         in if py_all criteria then Inr Good else Inr Bad))))"

subsection \<open>T2RamseyAnalysis._evaluate_quality\<close>

definition T2RamseyAnalysis_evaluate_quality :: "curve_analysis \<Rightarrow> fit_data \<Rightarrow> py_error + quality" where
  "T2RamseyAnalysis_evaluate_quality self fit_data =
     (case fitval fit_data ''amp'' of Inl e \<Rightarrow> Inl e | Inr amp \<Rightarrow>
     (case fitval fit_data ''tau'' of Inl e \<Rightarrow> Inl e | Inr tau \<Rightarrow>
     (case fitval fit_data ''freq'' of Inl e \<Rightarrow> Inl e | Inr freq \<Rightarrow>
        (let criteria =
           [ reduced_chisq fit_data < 3,
             (case fv_stderr amp of None \<Rightarrow> True | Some s \<Rightarrow> s < 0.1 * fv_value amp),
             (case fv_stderr tau of None \<Rightarrow> True | Some s \<Rightarrow> s < 0.1 * fv_value tau),
             (case fv_stderr freq of None \<Rightarrow> True | Some s \<Rightarrow> s < 0.1 * fv_value freq) ]
         in if py_all criteria then Inr Good else Inr Bad))))"

text \<open>
  The criterion of the specification for one parameter, in the specification's words: the
  parameter has a standard error, and it is below 10 percent of the fitted value.
\<close>

definition spec_relative_stderr_below_10_percent :: "fit_val \<Rightarrow> bool" where
  "spec_relative_stderr_below_10_percent p =
     (case fv_stderr p of None \<Rightarrow> False | Some s \<Rightarrow> s < 0.1 * fv_value p)"

section \<open>Initial guesses\<close>

text \<open>
  \<^verbatim>\<open>FitOptions\<close>: the initial guesses \<^verbatim>\<open>p0\<close> hold one entry per fit parameter, \<^verbatim>\<open>None\<close>
  until a guess is given, and the bounds one pair per parameter.
\<close>

record fit_options =
  p0 :: "string \<rightharpoonup> real option"
  fo_bounds :: "string \<rightharpoonup> real option \<times> real option"
  fo_extra :: "string \<rightharpoonup> pyval"

text \<open>
  \<^verbatim>\<open>_generate_fit_guesses\<close> of T1Analysis and of T2RamseyAnalysis: the same body in both
  classes. The guess generation of the parent class (DecayAnalysis, DumpedOscillationAnalysis)
  is not among the sources and is the parameter \<open>super_generate_fit_guesses\<close>; it receives
  the options object after the in-place update.
\<close>

definition T1Analysis_generate_fit_guesses ::
  "(fit_options \<Rightarrow> py_error + 'r) \<Rightarrow> curve_analysis \<Rightarrow> fit_options \<Rightarrow> py_error + 'r" where
  "T1Analysis_generate_fit_guesses super_generate_fit_guesses self user_opt =
     (case getitem (ca_experiment_options self) ''conversion_factor'' of Inl e \<Rightarrow> Inl e
      | Inr conversion_factor \<Rightarrow>
     (case getitem (p0 user_opt) ''tau'' of Inl e \<Rightarrow> Inl e
      | Inr None \<Rightarrow> super_generate_fit_guesses user_opt
      | Inr (Some tau) \<Rightarrow>
          (case as_number conversion_factor of Inl e \<Rightarrow> Inl e
           | Inr c \<Rightarrow>
               super_generate_fit_guesses
                 (user_opt\<lparr>p0 := (p0 user_opt)(''tau'' \<mapsto> Some (tau * c))\<rparr>))))"

definition T2RamseyAnalysis_generate_fit_guesses ::
  "(fit_options \<Rightarrow> py_error + 'r) \<Rightarrow> curve_analysis \<Rightarrow> fit_options \<Rightarrow> py_error + 'r" where
  "T2RamseyAnalysis_generate_fit_guesses super_generate_fit_guesses self user_opt =
     (case getitem (ca_experiment_options self) ''conversion_factor'' of Inl e \<Rightarrow> Inl e
      | Inr conversion_factor \<Rightarrow>
     (case getitem (p0 user_opt) ''tau'' of Inl e \<Rightarrow> Inl e
      | Inr None \<Rightarrow> super_generate_fit_guesses user_opt
      | Inr (Some tau) \<Rightarrow>
          (case as_number conversion_factor of Inl e \<Rightarrow> Inl e
           | Inr c \<Rightarrow>
               super_generate_fit_guesses
                 (user_opt\<lparr>p0 := (p0 user_opt)(''tau'' \<mapsto> Some (tau * c))\<rparr>))))"

section \<open>Frequency calibration\<close>

text \<open>
  \<^verbatim>\<open>ExperimentData\<close>: the container of the framework. The modelled code reads and writes its
  metadata dictionary; the analysis results are reached only through \<^verbatim>\<open>BaseUpdater.get_value\<close>.
\<close>

record experiment_data =
  ed_metadata :: "string \<rightharpoonup> pyval"
  ed_experiment_id :: string
  ed_physical_qubits :: "int list"
  ed_analysis_results :: "fit_data list"

text \<open>
  The experiment options of a calibration experiment that the modelled methods read
  (\<^verbatim>\<open>group\<close>, \<^verbatim>\<open>osc_freq\<close>, \<^verbatim>\<open>result_index\<close>) or that the constructor sets
  (\<^verbatim>\<open>delays\<close>, \<^verbatim>\<open>unit\<close>, \<^verbatim>\<open>osc_freq\<close>).
\<close>

record cal_experiment_options =
  opt_group :: string
  opt_osc_freq :: real
  opt_result_index :: int
  opt_delays :: "real list option"
  opt_unit :: string

text \<open>
  The \<^verbatim>\<open>FrequencyCal\<close> object: \<^verbatim>\<open>self._cals\<close>, \<^verbatim>\<open>self._param_name\<close>,
  \<^verbatim>\<open>self.physical_qubits\<close>, \<^verbatim>\<open>self.auto_update\<close> and \<^verbatim>\<open>self.experiment_options\<close>.
  The calibration store is of an arbitrary type \<open>'cals\<close>: the class behind it is not among
  the sources, and the methods below reach it only through the functions they are given.
\<close>

record 'cals frequency_cal =
  fc_cals :: 'cals
  fc_param_name :: string
  fc_physical_qubits :: "int list"
  fc_auto_update :: bool
  fc_experiment_options :: cal_experiment_options

text \<open>
  Modelled from the spec: the constructor of the parent classes (BaseCalibrationExperiment,
  RamseyXY) is not among the sources. It keeps the calibration store, the parameter name and
  the auto-update flag "set at experiment construction", and the delays, unit and oscillation
  frequency as experiment options; \<open>defaults\<close> are the options of the parent class before
  the constructor's arguments are applied. \<^verbatim>\<open>FrequencyCal.__init__\<close> itself hands every
  argument to that constructor with \<^verbatim>\<open>cal_parameter_name="qubit_lo_freq"\<close>. The backend and
  the transpile options play no part in the modelled methods.
\<close>

definition FrequencyCal_init ::
  "cal_experiment_options \<Rightarrow> int \<Rightarrow> 'cals \<Rightarrow> real list option \<Rightarrow> string \<Rightarrow> real \<Rightarrow> bool
     \<Rightarrow> 'cals frequency_cal" where
  "FrequencyCal_init defaults qubit calibrations delays unit_name osc_freq auto_update =
     \<lparr> fc_cals = calibrations,
       fc_param_name = ''qubit_lo_freq'',
       fc_physical_qubits = [qubit],
       fc_auto_update = auto_update,
       fc_experiment_options =
         defaults\<lparr>opt_delays := delays, opt_unit := unit_name, opt_osc_freq := osc_freq\<rparr> \<rparr>"

text \<open>
  \<^verbatim>\<open>FrequencyCal._add_cal_metadata\<close>. The store's \<^verbatim>\<open>get_parameter_value\<close> is the parameter
  \<open>get_parameter_value\<close> (store, parameter name, qubits, group); it may raise.
\<close>

definition FrequencyCal_add_cal_metadata ::
  "('cals \<Rightarrow> string \<Rightarrow> int list \<Rightarrow> string \<Rightarrow> py_error + real)
     \<Rightarrow> 'cals frequency_cal \<Rightarrow> experiment_data \<Rightarrow> py_error + experiment_data" where
  "FrequencyCal_add_cal_metadata get_parameter_value self experiment_data =
     (case get_parameter_value (fc_cals self) (fc_param_name self) (fc_physical_qubits self)
             (opt_group (fc_experiment_options self)) of
        Inl e \<Rightarrow> Inl e
      | Inr param_val \<Rightarrow>
          Inr (experiment_data\<lparr>ed_metadata :=
                 (ed_metadata experiment_data)
                   (''cal_param_value'' \<mapsto> PyFloat param_val,
                    ''cal_group'' \<mapsto> PyStr (opt_group (fc_experiment_options self)),
                    ''osc_freq'' \<mapsto> PyFloat (opt_osc_freq (fc_experiment_options self)))\<rparr>))"

text \<open>
  \<^verbatim>\<open>FrequencyCal.update_calibrations\<close>. \<^verbatim>\<open>BaseUpdater.get_value\<close> and
  \<^verbatim>\<open>BaseUpdater.add_parameter_value\<close> are not among the sources and are the parameters
  \<open>get_value\<close> (experiment data, parameter name, result index; it may raise) and
  \<open>add_parameter_value\<close> (store, experiment data, value, parameter name, group). The result
  pairs the outcome of the call with the calibration store after it, so that a raise leaves
  the store visible: every statement that can raise precedes the only write.
\<close>

definition update_calibrations ::
  "(experiment_data \<Rightarrow> string \<Rightarrow> int \<Rightarrow> py_error + real)
     \<Rightarrow> ('cals \<Rightarrow> experiment_data \<Rightarrow> real \<Rightarrow> string \<Rightarrow> pyval \<Rightarrow> 'cals)
     \<Rightarrow> 'cals frequency_cal \<Rightarrow> experiment_data \<Rightarrow> (py_error + unit) \<times> 'cals" where
  "update_calibrations get_value add_parameter_value self experiment_data =
     (let result_index = opt_result_index (fc_experiment_options self) in
      case getitem (ed_metadata experiment_data) ''osc_freq'' of
        Inl e \<Rightarrow> (Inl e, fc_cals self)
      | Inr osc_freq \<Rightarrow>
     (case getitem (ed_metadata experiment_data) ''cal_group'' of
        Inl e \<Rightarrow> (Inl e, fc_cals self)
      | Inr group_label \<Rightarrow>
     (case getitem (ed_metadata experiment_data) ''cal_param_value'' of
        Inl e \<Rightarrow> (Inl e, fc_cals self)
      | Inr old_freq \<Rightarrow>
     (case get_value experiment_data ''freq'' result_index of
        Inl e \<Rightarrow> (Inl e, fc_cals self)
      | Inr fit_freq \<Rightarrow>
     (case as_number old_freq of
        Inl e \<Rightarrow> (Inl e, fc_cals self)
      | Inr old_num \<Rightarrow>
     (case as_number osc_freq of
        Inl e \<Rightarrow> (Inl e, fc_cals self)
      | Inr osc_num \<Rightarrow>
          (let new_freq = old_num + fit_freq - osc_num
           in (Inr (),
               add_parameter_value (fc_cals self) experiment_data new_freq
                 (fc_param_name self) group_label))))))))"

subsection \<open>The calibration store and the updater of the specification\<close>

text \<open>
  Modelled from the spec: the calibration store (BackendCalibrations) and \<^verbatim>\<open>BaseUpdater\<close> are
  not among the sources. The spec describes a calibration parameter as a named value keyed by
  parameter name, qubit tuple and group label; the write
  \<^verbatim>\<open>add_parameter_value(store, experiment_data, new_value, name, group)\<close> appends a new entry
  that is attributable to the experiment data, and the read
  \<^verbatim>\<open>get_parameter_value(name, qubits, group)\<close> returns the current value. The store is the
  list of its entries, oldest first. Time stamps are left out.
\<close>

record parameter_entry =
  pe_param :: string
  pe_qubits :: "int list"
  pe_group :: pyval
  pe_value :: real
  pe_exp_id :: string

type_synonym calibrations = "parameter_entry list"

text \<open>
  Modelled from the spec: \<^verbatim>\<open>BaseUpdater.add_parameter_value\<close>, the write of the store
  boundary, "appends a new entry".
\<close>

definition BaseUpdater_add_parameter_value ::
  "calibrations \<Rightarrow> experiment_data \<Rightarrow> real \<Rightarrow> string \<Rightarrow> pyval \<Rightarrow> calibrations" where
  "BaseUpdater_add_parameter_value cal exp_data new_value param group_label =
     cal @ [\<lparr> pe_param = param,
              pe_qubits = ed_physical_qubits exp_data,
              pe_group = group_label,
              pe_value = new_value,
              pe_exp_id = ed_experiment_id exp_data \<rparr>]"

text \<open>
  Modelled from the spec: the current value of a parameter is the value of the newest entry
  with its name, qubits and group.
\<close>

fun current_value :: "calibrations \<Rightarrow> string \<Rightarrow> int list \<Rightarrow> pyval \<Rightarrow> real option" where
  "current_value [] param qubits group_label = None"
| "current_value (entry # rest) param qubits group_label =
     (case current_value rest param qubits group_label of
        Some v \<Rightarrow> Some v
      | None \<Rightarrow>
          (if pe_param entry = param \<and> pe_qubits entry = qubits \<and> pe_group entry = group_label
           then Some (pe_value entry) else None))"

text \<open>
  Modelled from the spec: \<^verbatim>\<open>get_parameter_value(name, qubits, group)\<close>, the read of the
  store boundary; a parameter without a value is an error.
\<close>

definition get_parameter_value ::
  "calibrations \<Rightarrow> string \<Rightarrow> int list \<Rightarrow> string \<Rightarrow> py_error + real" where
  "get_parameter_value cal param qubits group_name =
     (case current_value cal param qubits (PyStr group_name) of
        None \<Rightarrow> Inl CalibrationError
      | Some v \<Rightarrow> Inr v)"

text \<open>
  Modelled from the spec: \<^verbatim>\<open>BaseUpdater.get_value\<close> is not among the sources. The fitted
  frequency is "the fit result named freq" of the experiment data; the result index selects
  among its analysis results the way a Python list index does (negative from the end).
\<close>

definition BaseUpdater_get_value :: "experiment_data \<Rightarrow> string \<Rightarrow> int \<Rightarrow> py_error + real" where
  "BaseUpdater_get_value exp_data param index =
     (let results = ed_analysis_results exp_data;
          n = int (length results);
          j = (if index < 0 then n + index else index)
      in if 0 \<le> j \<and> j < n
         then (case fitval (results ! nat j) param of
                 Inl e \<Rightarrow> Inl e
               | Inr v \<Rightarrow> Inr (fv_value v))
         else Inl ValueError)"

text \<open>
  Modelled from the spec: \<^verbatim>\<open>BaseCalibrationExperiment.run\<close> is not among the sources. The spec
  has the updater work on completed experiment data "with a fit result and echoed pre-fit
  metadata", and the commit "conditional on an auto_update flag set at experiment
  construction; when false, the fit still runs but no write occurs". Execution and the fit
  are external and are the parameters \<open>execute\<close> and \<open>analysis\<close>.
\<close>

definition run ::
  "('cals frequency_cal \<Rightarrow> experiment_data)
     \<Rightarrow> (experiment_data \<Rightarrow> experiment_data)
     \<Rightarrow> ('cals \<Rightarrow> string \<Rightarrow> int list \<Rightarrow> string \<Rightarrow> py_error + real)
     \<Rightarrow> (experiment_data \<Rightarrow> string \<Rightarrow> int \<Rightarrow> py_error + real)
     \<Rightarrow> ('cals \<Rightarrow> experiment_data \<Rightarrow> real \<Rightarrow> string \<Rightarrow> pyval \<Rightarrow> 'cals)
     \<Rightarrow> 'cals frequency_cal \<Rightarrow> (py_error + experiment_data) \<times> 'cals" where
  "run execute analysis cals_get_parameter_value get_value add_parameter_value self =
     (case FrequencyCal_add_cal_metadata cals_get_parameter_value self (execute self) of
        Inl e \<Rightarrow> (Inl e, fc_cals self)
      | Inr experiment_data \<Rightarrow>
          (let fitted = analysis experiment_data
           in if fc_auto_update self
              then (case update_calibrations get_value add_parameter_value self fitted of
                      (Inl e, cals') \<Rightarrow> (Inl e, cals')
                    | (Inr u, cals') \<Rightarrow> (Inr fitted, cals'))
              else (Inr fitted, fc_cals self)))"

section \<open>Half-angle experiment\<close>

text \<open>
  The circuit container is external; a circuit is the sequence of the instructions appended
  to it and its metadata dictionary. \<^verbatim>\<open>measure_all\<close> is one instruction of the model.
\<close>

datatype instruction = Rz real int | Sx int | Y int | MeasureAll

record quantum_circuit =
  num_qubits :: nat
  data :: "instruction list"
  qc_metadata :: "string \<rightharpoonup> pyval"

definition QuantumCircuit :: "nat \<Rightarrow> quantum_circuit" where
  "QuantumCircuit n = \<lparr> num_qubits = n, data = [], qc_metadata = Map.empty \<rparr>"

definition append_instruction :: "instruction \<Rightarrow> quantum_circuit \<Rightarrow> quantum_circuit" where
  "append_instruction i circuit = circuit\<lparr>data := data circuit @ [i]\<rparr>"

text \<open>
  The \<^verbatim>\<open>HalfAngle\<close> object: \<^verbatim>\<open>self._type\<close>, \<^verbatim>\<open>self.physical_qubits\<close> and the
  \<^verbatim>\<open>repetitions\<close> experiment option (a list of Python integers).
\<close>

record half_angle =
  ha_type :: string
  ha_physical_qubits :: "int list"
  repetitions :: "int list"

text \<open>\<^verbatim>\<open>_default_experiment_options\<close>: \<^verbatim>\<open>list(range(15))\<close>.\<close>

definition default_repetitions :: "int list" where
  "default_repetitions = map int [0..<15]"

definition pre_circuit :: quantum_circuit where
  "pre_circuit = QuantumCircuit 1"

text \<open>
  The inner loop \<^verbatim>\<open>for _ in range(repetition)\<close>. \<^verbatim>\<open>range(n)\<close> has \<open>nat n\<close> elements: none
  when \<open>n\<close> is negative.
\<close>

fun amplify :: "nat \<Rightarrow> quantum_circuit \<Rightarrow> quantum_circuit" where
  "amplify 0 circuit = circuit"
| "amplify (Suc k) circuit =
     amplify k (append_instruction (Y 0)
                 (append_instruction (Sx 0)
                   (append_instruction (Sx 0) circuit)))"

text \<open>The body of the outer loop: the circuit built for one entry of \<^verbatim>\<open>repetitions\<close>.\<close>

definition circuit_for :: "half_angle \<Rightarrow> int \<Rightarrow> quantum_circuit" where
  "circuit_for self repetition =
     (let circuit = pre_circuit;
          circuit = append_instruction (Rz (pi / 2) 0) circuit;
          circuit = append_instruction (Sx 0) circuit;
          circuit = append_instruction (Rz (- pi / 2) 0) circuit;
          circuit = amplify (nat repetition) circuit;
          circuit = append_instruction (Sx 0) circuit;
          circuit = append_instruction MeasureAll circuit
      in circuit\<lparr>qc_metadata :=
           [''experiment_type'' \<mapsto> PyStr (ha_type self),
            ''qubits'' \<mapsto> PyTuple (ha_physical_qubits self),
            ''xval'' \<mapsto> PyInt repetition,
            ''unit'' \<mapsto> PyStr ''repetition number'']\<rparr>)"

fun circuits_loop :: "half_angle \<Rightarrow> int list \<Rightarrow> quantum_circuit list \<Rightarrow> quantum_circuit list" where
  "circuits_loop self [] circuits = circuits"
| "circuits_loop self (repetition # rest) circuits =
     circuits_loop self rest (circuits @ [circuit_for self repetition])"

definition circuits :: "half_angle \<Rightarrow> quantum_circuit list" where
  "circuits self = circuits_loop self (repetitions self) []"

text \<open>
  \<^verbatim>\<open>HalfAngle._default_analysis_options\<close>. The options of the parent class are the parameter
  \<open>super_options\<close>; \<^verbatim>\<open>options.bounds.update\<close> overwrites the entry of \<^verbatim>\<open>d_theta\<close> and keeps
  the others.
\<close>

record analysis_options =
  ao_result_parameters :: "(string \<times> string \<times> string) list"
  ao_normalization :: bool
  ao_angle_per_gate :: real
  ao_phase_offset :: real
  ao_amp :: real
  ao_bounds :: "string \<rightharpoonup> real \<times> real"

definition default_analysis_options :: "analysis_options \<Rightarrow> analysis_options" where
  "default_analysis_options super_options =
     (let options = super_options;
          options = options\<lparr>ao_result_parameters := [(''d_theta'', ''d_hac'', ''rad'')]\<rparr>;
          options = options\<lparr>ao_normalization := True\<rparr>;
          options = options\<lparr>ao_angle_per_gate := pi\<rparr>;
          options = options\<lparr>ao_phase_offset := - pi / 2\<rparr>;
          options = options\<lparr>ao_amp := 1.0\<rparr>;
          options = options\<lparr>ao_bounds := (ao_bounds options)(''d_theta'' \<mapsto> (- pi / 2, pi / 2))\<rparr>
      in options)"

section \<open>Example inputs\<close>

text \<open>Concrete inputs on which the properties below are evaluated.\<close>

definition example_analysis :: curve_analysis where
  "example_analysis =
     \<lparr>ca_experiment_options =
        [''conversion_factor'' \<mapsto> PyFloat 0.001, ''unit'' \<mapsto> PyStr ''ms'']\<rparr>"

definition example_decay_fit :: fit_data where
  "example_decay_fit =
     \<lparr>fd_params = [''amp'' \<mapsto> \<lparr>fv_value = 0.98, fv_stderr = Some 0.02\<rparr>,
                   ''tau'' \<mapsto> \<lparr>fv_value = 25, fv_stderr = None\<rparr>,
                   ''base'' \<mapsto> \<lparr>fv_value = 0.01, fv_stderr = Some 0.03\<rparr>],
      reduced_chisq = 1.1, dof = 10\<rparr>"

definition example_ramsey_fit :: fit_data where
  "example_ramsey_fit =
     \<lparr>fd_params = [''amp'' \<mapsto> \<lparr>fv_value = 0.5, fv_stderr = None\<rparr>,
                   ''tau'' \<mapsto> \<lparr>fv_value = 20, fv_stderr = Some 1\<rparr>,
                   ''freq'' \<mapsto> \<lparr>fv_value = 100, fv_stderr = Some 2\<rparr>],
      reduced_chisq = 1, dof = 10\<rparr>"

definition example_user_opt :: fit_options where
  "example_user_opt =
     \<lparr>p0 = [''amp'' \<mapsto> Some 1, ''tau'' \<mapsto> Some 25, ''base'' \<mapsto> None],
      fo_bounds = Map.empty, fo_extra = Map.empty\<rparr>"

definition example_defaults :: cal_experiment_options where
  "example_defaults =
     \<lparr>opt_group = ''default'', opt_osc_freq = 0, opt_result_index = - 1,
      opt_delays = None, opt_unit = ''s''\<rparr>"

definition example_entry :: parameter_entry where
  "example_entry =
     \<lparr>pe_param = ''qubit_lo_freq'', pe_qubits = [0], pe_group = PyStr ''default'',
      pe_value = 5000000000, pe_exp_id = ''exp-0''\<rparr>"

definition example_experiment :: "calibrations \<Rightarrow> bool \<Rightarrow> calibrations frequency_cal" where
  "example_experiment cal auto_update =
     FrequencyCal_init example_defaults 0 cal None ''s'' 2000000 auto_update"

definition example_frequency_fit :: fit_data where
  "example_frequency_fit =
     \<lparr>fd_params = [''freq'' \<mapsto> \<lparr>fv_value = 2000150, fv_stderr = Some 10\<rparr>],
      reduced_chisq = 1, dof = 10\<rparr>"

definition example_data :: experiment_data where
  "example_data =
     \<lparr>ed_metadata = [''cal_param_value'' \<mapsto> PyFloat 5000000000,
                     ''cal_group'' \<mapsto> PyStr ''default'',
                     ''osc_freq'' \<mapsto> PyFloat 2000000],
      ed_experiment_id = ''exp-1'',
      ed_physical_qubits = [0],
      ed_analysis_results = [example_frequency_fit]\<rparr>"

definition example_data_without_group :: experiment_data where
  "example_data_without_group =
     \<lparr>ed_metadata = [''cal_param_value'' \<mapsto> PyFloat 5000000000,
                     ''osc_freq'' \<mapsto> PyFloat 2000000],
      ed_experiment_id = ''exp-2'',
      ed_physical_qubits = [0],
      ed_analysis_results = [example_frequency_fit]\<rparr>"

definition example_raw_data :: experiment_data where
  "example_raw_data =
     \<lparr>ed_metadata = Map.empty, ed_experiment_id = ''exp-3'',
      ed_physical_qubits = [0], ed_analysis_results = []\<rparr>"

definition example_fit :: "experiment_data \<Rightarrow> experiment_data" where
  "example_fit d = d\<lparr>ed_analysis_results := [example_frequency_fit]\<rparr>"

definition example_half_angle :: half_angle where
  "example_half_angle =
     \<lparr>ha_type = ''HalfAngle'', ha_physical_qubits = [3], repetitions = [0, 2]\<rparr>"

section \<open>Properties\<close>

subsection \<open>Quality of a fit\<close>

lemma opt_guard_iff:
  "(case so of None \<Rightarrow> True | Some s \<Rightarrow> s < (b::real)) = (\<forall>s. so = Some s \<longrightarrow> s < b)"
  by (cases so) auto

text \<open>
  C1. For fit data of a decay fit (the parameters amp, tau and base are present),
  \<^verbatim>\<open>T1Analysis._evaluate_quality\<close> returns a label, and the label is good exactly when the
  reduced chi-squared is below 3, amp is within 0.1 of 1, base is within 0.1 of 0, and each
  of the three standard errors is absent or below its threshold (0.1 for amp and base, the
  value of tau for tau); in every other case the label is bad.
\<close>

theorem T1_quality_good_iff:
  assumes "fd_params fd ''amp'' = Some amp"
    and "fd_params fd ''tau'' = Some tau"
    and "fd_params fd ''base'' = Some base"
  shows "(T1Analysis_evaluate_quality self fd = Inr Good \<longleftrightarrow>
            reduced_chisq fd < 3
          \<and> \<bar>fv_value amp - 1.0\<bar> < 0.1
          \<and> \<bar>fv_value base\<bar> < 0.1
          \<and> (\<forall>s. fv_stderr amp = Some s \<longrightarrow> s < 0.1)
          \<and> (\<forall>s. fv_stderr tau = Some s \<longrightarrow> s < fv_value tau)
          \<and> (\<forall>s. fv_stderr base = Some s \<longrightarrow> s < 0.1))
       \<and> (T1Analysis_evaluate_quality self fd \<noteq> Inr Good \<longrightarrow>
            T1Analysis_evaluate_quality self fd = Inr Bad)"
  using assms
  by (simp add: T1Analysis_evaluate_quality_def fitval_def Let_def opt_guard_iff)

text \<open>A fit with amp 0.98 (error 0.02), base 0.01 (error 0.03), tau 25 without error estimate: good.\<close>

theorem T1_quality_good_iff_witness:
  "T1Analysis_evaluate_quality example_analysis example_decay_fit = Inr Good"
  using T1_quality_good_iff
    [of example_decay_fit
        "\<lparr>fv_value = 0.98, fv_stderr = Some 0.02\<rparr>"
        "\<lparr>fv_value = 25, fv_stderr = None\<rparr>"
        "\<lparr>fv_value = 0.01, fv_stderr = Some 0.03\<rparr>"
        example_analysis]
  by (simp add: example_decay_fit_def)

text \<open>
  C3, as the specification words it, asks every one of amp, tau and freq to have a standard
  error below 10 percent of its value. A fit whose amp has no standard error is labelled good
  by \<^verbatim>\<open>T2RamseyAnalysis._evaluate_quality\<close> all the same: the code guards each comparison
  with \<^verbatim>\<open>stderr is None or\<close>.
\<close>

theorem T2_quality_absent_stderr_counterexample:
  "\<not> (T2RamseyAnalysis_evaluate_quality \<lparr>ca_experiment_options = Map.empty\<rparr>
           \<lparr>fd_params = [''amp'' \<mapsto> \<lparr>fv_value = 0.5, fv_stderr = None\<rparr>,
                         ''tau'' \<mapsto> \<lparr>fv_value = 20, fv_stderr = Some 1\<rparr>,
                         ''freq'' \<mapsto> \<lparr>fv_value = 100, fv_stderr = Some 2\<rparr>],
            reduced_chisq = 1, dof = 10\<rparr> = Inr Good
       \<longleftrightarrow>
         (1::real) < 3
       \<and> spec_relative_stderr_below_10_percent \<lparr>fv_value = 0.5, fv_stderr = None\<rparr>
       \<and> spec_relative_stderr_below_10_percent \<lparr>fv_value = 20, fv_stderr = Some 1\<rparr>
       \<and> spec_relative_stderr_below_10_percent \<lparr>fv_value = 100, fv_stderr = Some 2\<rparr>)"
  by (simp add: T2RamseyAnalysis_evaluate_quality_def fitval_def
      spec_relative_stderr_below_10_percent_def)

text \<open>
  C3 (amended). For fit data of a damped-oscillation fit (the parameters amp, tau and freq are
  present), \<^verbatim>\<open>T2RamseyAnalysis._evaluate_quality\<close> returns a label, and the label is good
  exactly when the reduced chi-squared is below 3 and, for each of amp, tau and freq, the
  standard error is absent or below 0.1 times the fitted value; in every other case the
  label is bad.
\<close>

theorem T2_quality_good_iff:
  assumes "fd_params fd ''amp'' = Some amp"
    and "fd_params fd ''tau'' = Some tau"
    and "fd_params fd ''freq'' = Some freq"
  shows "(T2RamseyAnalysis_evaluate_quality self fd = Inr Good \<longleftrightarrow>
            reduced_chisq fd < 3
          \<and> (\<forall>s. fv_stderr amp = Some s \<longrightarrow> s < 0.1 * fv_value amp)
          \<and> (\<forall>s. fv_stderr tau = Some s \<longrightarrow> s < 0.1 * fv_value tau)
          \<and> (\<forall>s. fv_stderr freq = Some s \<longrightarrow> s < 0.1 * fv_value freq))
       \<and> (T2RamseyAnalysis_evaluate_quality self fd \<noteq> Inr Good \<longrightarrow>
            T2RamseyAnalysis_evaluate_quality self fd = Inr Bad)"
  using assms
  by (simp add: T2RamseyAnalysis_evaluate_quality_def fitval_def Let_def opt_guard_iff)

theorem T2_quality_good_iff_witness:
  "T2RamseyAnalysis_evaluate_quality example_analysis example_ramsey_fit = Inr Good"
  using T2_quality_good_iff
    [of example_ramsey_fit
        "\<lparr>fv_value = 0.5, fv_stderr = None\<rparr>"
        "\<lparr>fv_value = 20, fv_stderr = Some 1\<rparr>"
        "\<lparr>fv_value = 100, fv_stderr = Some 2\<rparr>"
        example_analysis]
  by (simp add: example_ramsey_fit_def)

subsection \<open>Initial guesses\<close>

text \<open>
  C8. With a conversion factor in the experiment options, \<^verbatim>\<open>_generate_fit_guesses\<close> of
  T1Analysis and of T2RamseyAnalysis hands the user's options to the guess generation of the
  parent class unchanged when the tau guess is unset, and with the tau guess multiplied by
  the conversion factor when the user gave one; the guesses of the other parameters and the
  bounds are the user's.
\<close>

theorem generate_fit_guesses_scales_tau:
  assumes "ca_experiment_options self ''conversion_factor'' = Some cf"
  shows "(p0 user_opt ''tau'' = Some None \<longrightarrow>
            T1Analysis_generate_fit_guesses super_gen self user_opt = super_gen user_opt
          \<and> T2RamseyAnalysis_generate_fit_guesses super_gen self user_opt = super_gen user_opt)
       \<and> (p0 user_opt ''tau'' = Some (Some t) \<and> as_number cf = Inr c \<longrightarrow>
            T1Analysis_generate_fit_guesses super_gen self user_opt
              = super_gen (user_opt\<lparr>p0 := (p0 user_opt)(''tau'' \<mapsto> Some (t * c))\<rparr>)
          \<and> T2RamseyAnalysis_generate_fit_guesses super_gen self user_opt
              = super_gen (user_opt\<lparr>p0 := (p0 user_opt)(''tau'' \<mapsto> Some (t * c))\<rparr>)
          \<and> (\<forall>k. k \<noteq> ''tau'' \<longrightarrow>
                 p0 (user_opt\<lparr>p0 := (p0 user_opt)(''tau'' \<mapsto> Some (t * c))\<rparr>) k
                   = p0 user_opt k)
          \<and> fo_bounds (user_opt\<lparr>p0 := (p0 user_opt)(''tau'' \<mapsto> Some (t * c))\<rparr>)
              = fo_bounds user_opt)"
  using assms
  by (simp add: T1Analysis_generate_fit_guesses_def T2RamseyAnalysis_generate_fit_guesses_def
      getitem_def)

text \<open>A tau guess of 25 ms with the conversion factor 0.001 reaches the parent as 0.025.\<close>

theorem generate_fit_guesses_scales_tau_witness:
  "(case T1Analysis_generate_fit_guesses Inr
           example_analysis example_user_opt of
      Inl e \<Rightarrow> False
    | Inr opt \<Rightarrow> p0 opt ''tau'' = Some (Some 0.025) \<and> p0 opt ''amp'' = Some (Some 1)
                 \<and> p0 opt ''base'' = Some None)"
  using generate_fit_guesses_scales_tau
    [of example_analysis
        "PyFloat 0.001"
        example_user_opt
        Inr 25 "0.001"]
  by (simp add: example_analysis_def example_user_opt_def)

subsection \<open>Frequency calibration\<close>

text \<open>
  C2. When the metadata of the experiment data hold the old calibration value (a number),
  the calibration group and the applied oscillation frequency (a number), and the fit result
  named freq is available, \<^verbatim>\<open>FrequencyCal.update_calibrations\<close> succeeds and the store after it is the
  store with the value old + fitted - offset added for the experiment's parameter and the
  echoed group.
\<close>

theorem update_calibrations_new_value:
  assumes "ed_metadata ed ''cal_param_value'' = Some old_freq"
    and "as_number old_freq = Inr old_value"
    and "ed_metadata ed ''cal_group'' = Some cal_group"
    and "ed_metadata ed ''osc_freq'' = Some osc_freq"
    and "as_number osc_freq = Inr offset"
    and "get_value ed ''freq'' (opt_result_index (fc_experiment_options self)) = Inr fitted"
  shows "update_calibrations get_value add_parameter_value self ed =
           (Inr (),
            add_parameter_value (fc_cals self) ed (old_value + fitted - offset)
              (fc_param_name self) cal_group)"
  using assms by (simp add: update_calibrations_def getitem_def)

text \<open>
  Old value 5 GHz, applied offset 2 MHz, fitted frequency 2.00015 MHz: the store receives
  5.00000015 GHz for \<^verbatim>\<open>qubit_lo_freq\<close>.
\<close>

theorem update_calibrations_new_value_witness:
  "update_calibrations BaseUpdater_get_value BaseUpdater_add_parameter_value
     (example_experiment [] True) example_data
   = (Inr (),
      [\<lparr> pe_param = ''qubit_lo_freq'', pe_qubits = [0], pe_group = PyStr ''default'',
         pe_value = 5000000150, pe_exp_id = ''exp-1'' \<rparr>])"
  using update_calibrations_new_value
    [of example_data
        "PyFloat 5000000000" 5000000000 "PyStr ''default''" "PyFloat 2000000" 2000000
        BaseUpdater_get_value
        "example_experiment [] True"
        2000150 BaseUpdater_add_parameter_value]
  by (simp add: BaseUpdater_get_value_def BaseUpdater_add_parameter_value_def
      FrequencyCal_init_def fitval_def example_data_def example_frequency_fit_def
      example_experiment_def example_defaults_def)

text \<open>
  C4. An experiment constructed with \<^verbatim>\<open>auto_update=False\<close> leaves the calibration store as
  it was given to the constructor when it is run, whatever the execution, the fit and the
  store functions do; the outcome of the run is the fitted experiment data (or the error
  raised while the calibration metadata were read).
\<close>

theorem run_without_auto_update:
  "snd (run execute analysis cals_get_parameter_value get_value add_parameter_value
          (FrequencyCal_init defaults qubit calibrations delays unit_name osc_freq False))
     = calibrations
   \<and> fst (run execute analysis cals_get_parameter_value get_value add_parameter_value
          (FrequencyCal_init defaults qubit calibrations delays unit_name osc_freq False))
     = (case FrequencyCal_add_cal_metadata cals_get_parameter_value
               (FrequencyCal_init defaults qubit calibrations delays unit_name osc_freq False)
               (execute (FrequencyCal_init defaults qubit calibrations delays unit_name
                           osc_freq False)) of
          Inl e \<Rightarrow> Inl e
        | Inr experiment_data \<Rightarrow> Inr (analysis experiment_data))"
  by (simp add: run_def FrequencyCal_init_def Let_def split: sum.splits)

theorem run_without_auto_update_witness:
  "snd (run (\<lambda>exp. example_raw_data) example_fit
          get_parameter_value BaseUpdater_get_value BaseUpdater_add_parameter_value
          (example_experiment [example_entry] False))
   = [example_entry]"
  using run_without_auto_update
    [of "\<lambda>exp. example_raw_data"
        example_fit
        get_parameter_value BaseUpdater_get_value BaseUpdater_add_parameter_value
        example_defaults 0
        "[example_entry]" None "''s''" 2000000]
  by (simp add: example_experiment_def)

text \<open>
  C10. When the store has a value for the parameter, \<^verbatim>\<open>FrequencyCal._add_cal_metadata\<close>
  succeeds and changes the experiment data in the metadata keys \<^verbatim>\<open>cal_param_value\<close>,
  \<^verbatim>\<open>cal_group\<close> and \<^verbatim>\<open>osc_freq\<close> only, and \<^verbatim>\<open>update_calibrations\<close> on these data reads
  the three values back: it writes stored value + fitted frequency - oscillation frequency
  under the stored group (or passes on the error of the fit lookup, without a write). When
  the store read fails, so does \<^verbatim>\<open>_add_cal_metadata\<close>. When one of the three keys is
  missing from the metadata, \<^verbatim>\<open>update_calibrations\<close> raises KeyError and the store is the
  one before the call. What \<^verbatim>\<open>update_calibrations\<close> raises, or the value and the group it
  writes, is the same for every content of the store: the old value comes from the
  metadata, not from the store.
\<close>

theorem update_calibrations_metadata_only:
  "(cals_get_parameter_value (fc_cals self) (fc_param_name self) (fc_physical_qubits self)
       (opt_group (fc_experiment_options self)) = Inr param_val \<longrightarrow>
      (\<exists>ed'. FrequencyCal_add_cal_metadata cals_get_parameter_value self ed = Inr ed'
         \<and> ed' = ed\<lparr>ed_metadata :=
                    (ed_metadata ed)
                      (''cal_param_value'' \<mapsto> PyFloat param_val,
                       ''cal_group'' \<mapsto> PyStr (opt_group (fc_experiment_options self)),
                       ''osc_freq'' \<mapsto> PyFloat (opt_osc_freq (fc_experiment_options self)))\<rparr>
         \<and> update_calibrations get_value add_parameter_value self ed' =
             (case get_value ed' ''freq'' (opt_result_index (fc_experiment_options self)) of
                Inl e \<Rightarrow> (Inl e, fc_cals self)
              | Inr fit_freq \<Rightarrow>
                  (Inr (),
                   add_parameter_value (fc_cals self) ed'
                     (param_val + fit_freq - opt_osc_freq (fc_experiment_options self))
                     (fc_param_name self)
                     (PyStr (opt_group (fc_experiment_options self)))))))
   \<and> (cals_get_parameter_value (fc_cals self) (fc_param_name self) (fc_physical_qubits self)
       (opt_group (fc_experiment_options self)) = Inl err \<longrightarrow>
      FrequencyCal_add_cal_metadata cals_get_parameter_value self ed = Inl err)
   \<and> (ed_metadata ed ''cal_param_value'' = None \<or> ed_metadata ed ''cal_group'' = None
        \<or> ed_metadata ed ''osc_freq'' = None \<longrightarrow>
      update_calibrations get_value add_parameter_value self ed = (Inl KeyError, fc_cals self))
   \<and> (\<exists>outcome. \<forall>store.
        update_calibrations get_value add_parameter_value (self\<lparr>fc_cals := store\<rparr>) ed =
          (case outcome of
             Inl e \<Rightarrow> (Inl e, store)
           | Inr (new_freq, cal_group) \<Rightarrow>
               (Inr (), add_parameter_value store ed new_freq (fc_param_name self) cal_group)))"
proof (intro conjI)
  show "cals_get_parameter_value (fc_cals self) (fc_param_name self) (fc_physical_qubits self)
       (opt_group (fc_experiment_options self)) = Inr param_val \<longrightarrow>
      (\<exists>ed'. FrequencyCal_add_cal_metadata cals_get_parameter_value self ed = Inr ed'
         \<and> ed' = ed\<lparr>ed_metadata :=
                    (ed_metadata ed)
                      (''cal_param_value'' \<mapsto> PyFloat param_val,
                       ''cal_group'' \<mapsto> PyStr (opt_group (fc_experiment_options self)),
                       ''osc_freq'' \<mapsto> PyFloat (opt_osc_freq (fc_experiment_options self)))\<rparr>
         \<and> update_calibrations get_value add_parameter_value self ed' =
             (case get_value ed' ''freq'' (opt_result_index (fc_experiment_options self)) of
                Inl e \<Rightarrow> (Inl e, fc_cals self)
              | Inr fit_freq \<Rightarrow>
                  (Inr (),
                   add_parameter_value (fc_cals self) ed'
                     (param_val + fit_freq - opt_osc_freq (fc_experiment_options self))
                     (fc_param_name self)
                     (PyStr (opt_group (fc_experiment_options self))))))"
    by (simp add: FrequencyCal_add_cal_metadata_def update_calibrations_def getitem_def
        split: sum.splits)
next
  show "cals_get_parameter_value (fc_cals self) (fc_param_name self) (fc_physical_qubits self)
       (opt_group (fc_experiment_options self)) = Inl err \<longrightarrow>
      FrequencyCal_add_cal_metadata cals_get_parameter_value self ed = Inl err"
    by (simp add: FrequencyCal_add_cal_metadata_def)
next
  show "ed_metadata ed ''cal_param_value'' = None \<or> ed_metadata ed ''cal_group'' = None
        \<or> ed_metadata ed ''osc_freq'' = None \<longrightarrow>
      update_calibrations get_value add_parameter_value self ed = (Inl KeyError, fc_cals self)"
    by (auto simp: update_calibrations_def getitem_def split: option.splits sum.splits)
next
  let ?probe =
    "\<lparr> fc_cals = None, fc_param_name = fc_param_name self,
       fc_physical_qubits = fc_physical_qubits self, fc_auto_update = fc_auto_update self,
       fc_experiment_options = fc_experiment_options self \<rparr>"
  let ?outcome =
    "case update_calibrations get_value (\<lambda>c e v n g. Some (v, g)) ?probe ed of
       (Inl e, c) \<Rightarrow> Inl e
     | (Inr u, None) \<Rightarrow> Inl TypeError
     | (Inr u, Some vg) \<Rightarrow> Inr vg"
  have "\<forall>store.
        update_calibrations get_value add_parameter_value (self\<lparr>fc_cals := store\<rparr>) ed =
          (case ?outcome of
             Inl e \<Rightarrow> (Inl e, store)
           | Inr (new_freq, cal_group) \<Rightarrow>
               (Inr (), add_parameter_value store ed new_freq (fc_param_name self) cal_group))"
    by (simp add: update_calibrations_def Let_def split: sum.splits)
  then show "\<exists>outcome. \<forall>store.
        update_calibrations get_value add_parameter_value (self\<lparr>fc_cals := store\<rparr>) ed =
          (case outcome of
             Inl e \<Rightarrow> (Inl e, store)
           | Inr (new_freq, cal_group) \<Rightarrow>
               (Inr (), add_parameter_value store ed new_freq (fc_param_name self) cal_group))"
    by (rule exI)
qed

text \<open>
  A store whose current value is 5 GHz: the three keys are written and read back, and the
  update adds 5.00000015 GHz. Experiment data without the key \<^verbatim>\<open>cal_group\<close>: KeyError, and
  the store keeps its one entry.
\<close>

lemma example_current_value:
  "get_parameter_value [example_entry] ''qubit_lo_freq'' [0] ''default'' = Inr 5000000000"
  by (simp add: get_parameter_value_def example_entry_def)

theorem update_calibrations_metadata_only_witness:
  "(case FrequencyCal_add_cal_metadata get_parameter_value
           (example_experiment [example_entry] True) (example_fit example_raw_data) of
      Inl e \<Rightarrow> False
    | Inr ed' \<Rightarrow>
        ed_metadata ed' ''cal_param_value'' = Some (PyFloat 5000000000)
      \<and> ed_metadata ed' ''cal_group'' = Some (PyStr ''default'')
      \<and> ed_metadata ed' ''osc_freq'' = Some (PyFloat 2000000)
      \<and> ed_metadata ed' ''xval'' = None
      \<and> update_calibrations BaseUpdater_get_value BaseUpdater_add_parameter_value
           (example_experiment [example_entry] True) ed'
         = (Inr (),
            [example_entry,
             \<lparr>pe_param = ''qubit_lo_freq'', pe_qubits = [0], pe_group = PyStr ''default'',
               pe_value = 5000000150, pe_exp_id = ''exp-3''\<rparr>]))
   \<and> update_calibrations BaseUpdater_get_value BaseUpdater_add_parameter_value
        (example_experiment [example_entry] True) example_data_without_group
      = (Inl KeyError, [example_entry])"
proof -
  have read: "get_parameter_value (fc_cals (example_experiment [example_entry] True))
          (fc_param_name (example_experiment [example_entry] True))
          (fc_physical_qubits (example_experiment [example_entry] True))
          (opt_group (fc_experiment_options (example_experiment [example_entry] True)))
        = Inr 5000000000"
    by (simp add: example_experiment_def FrequencyCal_init_def example_defaults_def
        example_current_value)
  note inst = update_calibrations_metadata_only
    [of get_parameter_value "example_experiment [example_entry] True" 5000000000
        _ BaseUpdater_get_value BaseUpdater_add_parameter_value]
  have missing: "update_calibrations BaseUpdater_get_value BaseUpdater_add_parameter_value
        (example_experiment [example_entry] True) example_data_without_group
      = (Inl KeyError, [example_entry])"
    using inst [of example_data_without_group]
    by (simp add: FrequencyCal_init_def example_experiment_def example_data_without_group_def)
  have written: "\<exists>ed'. FrequencyCal_add_cal_metadata get_parameter_value
           (example_experiment [example_entry] True) (example_fit example_raw_data) = Inr ed'
      \<and> ed_metadata ed' ''cal_param_value'' = Some (PyFloat 5000000000)
      \<and> ed_metadata ed' ''cal_group'' = Some (PyStr ''default'')
      \<and> ed_metadata ed' ''osc_freq'' = Some (PyFloat 2000000)
      \<and> ed_metadata ed' ''xval'' = None
      \<and> update_calibrations BaseUpdater_get_value BaseUpdater_add_parameter_value
           (example_experiment [example_entry] True) ed'
         = (Inr (),
            [example_entry,
             \<lparr>pe_param = ''qubit_lo_freq'', pe_qubits = [0], pe_group = PyStr ''default'',
               pe_value = 5000000150, pe_exp_id = ''exp-3''\<rparr>])"
    using inst [of "example_fit example_raw_data"] read
    by (simp add: example_experiment_def FrequencyCal_init_def example_defaults_def
        example_fit_def example_raw_data_def example_frequency_fit_def
        BaseUpdater_get_value_def BaseUpdater_add_parameter_value_def fitval_def)
  from written missing show ?thesis by auto
qed

subsection \<open>Half-angle circuits\<close>

lemma data_amplify:
  "data (amplify k circuit) = data circuit @ concat (replicate k [Sx 0, Sx 0, Y 0])"
proof (induction k arbitrary: circuit)
  case 0
  show ?case by simp
next
  case (Suc k)
  have "concat (replicate k [Sx 0, Sx 0, Y 0]) @ [Sx 0, Sx 0, Y 0]
        = [Sx 0, Sx 0, Y 0] @ concat (replicate k [Sx 0, Sx 0, Y 0])"
    by (induction k) simp_all
  then show ?case
    using Suc.IH by (simp add: append_instruction_def)
qed

lemma circuits_loop_append:
  "circuits_loop self rs acc = acc @ map (circuit_for self) rs"
  by (induction rs arbitrary: acc) simp_all

lemma circuits_map: "circuits self = map (circuit_for self) (repetitions self)"
  by (simp add: circuits_def circuits_loop_append)

lemma data_circuit_for:
  "data (circuit_for self n) =
     [Rz (pi / 2) 0, Sx 0, Rz (- pi / 2) 0]
     @ concat (replicate (nat n) [Sx 0, Sx 0, Y 0])
     @ [Sx 0, MeasureAll]"
  by (simp add: circuit_for_def Let_def append_instruction_def data_amplify
      pre_circuit_def QuantumCircuit_def)

text \<open>
  C5. The instruction sequences of the circuits of \<^verbatim>\<open>HalfAngle.circuits\<close> are, entry by
  entry of the repetitions option: rz(pi/2), sx, rz(-pi/2), then the block sx, sx, y as many
  times as the entry says (\<open>nat n\<close>: a negative entry gives an empty \<^verbatim>\<open>range\<close>), then sx and
  the measurement of all qubits.
\<close>

theorem circuits_gate_sequence:
  "map data (circuits self) =
     map (\<lambda>n. [Rz (pi / 2) 0, Sx 0, Rz (- pi / 2) 0]
              @ concat (replicate (nat n) [Sx 0, Sx 0, Y 0])
              @ [Sx 0, MeasureAll])
         (repetitions self)"
  by (simp add: circuits_map data_circuit_for)

theorem circuits_gate_sequence_witness:
  "map data (circuits example_half_angle) =
     [[Rz (pi / 2) 0, Sx 0, Rz (- pi / 2) 0, Sx 0, MeasureAll],
      [Rz (pi / 2) 0, Sx 0, Rz (- pi / 2) 0,
       Sx 0, Sx 0, Y 0, Sx 0, Sx 0, Y 0, Sx 0, MeasureAll]]"
  using circuits_gate_sequence [of example_half_angle]
  by (simp add: example_half_angle_def eval_nat_numeral)

text \<open>
  C6. \<^verbatim>\<open>HalfAngle.circuits\<close> returns one circuit per entry of the repetitions option, in the
  order of the entries, and the metadata of the circuit of an entry are exactly the four
  fields \<^verbatim>\<open>experiment_type\<close> (the type tag of the experiment), \<^verbatim>\<open>qubits\<close> (the physical
  qubits), \<^verbatim>\<open>xval\<close> (the entry) and \<^verbatim>\<open>unit\<close> (\<^verbatim>\<open>"repetition number"\<close>).
\<close>

theorem circuits_one_per_scan_point:
  "length (circuits self) = length (repetitions self)
   \<and> map qc_metadata (circuits self) =
       map (\<lambda>n. [''experiment_type'' \<mapsto> PyStr (ha_type self),
                 ''qubits'' \<mapsto> PyTuple (ha_physical_qubits self),
                 ''xval'' \<mapsto> PyInt n,
                 ''unit'' \<mapsto> PyStr ''repetition number''])
           (repetitions self)"
  by (simp add: circuits_map circuit_for_def Let_def)

theorem circuits_one_per_scan_point_witness:
  "length (circuits example_half_angle) = 2
   \<and> map qc_metadata (circuits example_half_angle) =
       [[''experiment_type'' \<mapsto> PyStr ''HalfAngle'', ''qubits'' \<mapsto> PyTuple [3],
         ''xval'' \<mapsto> PyInt 0, ''unit'' \<mapsto> PyStr ''repetition number''],
        [''experiment_type'' \<mapsto> PyStr ''HalfAngle'', ''qubits'' \<mapsto> PyTuple [3],
         ''xval'' \<mapsto> PyInt 2, ''unit'' \<mapsto> PyStr ''repetition number'']]"
  using circuits_one_per_scan_point [of example_half_angle]
  by (simp add: example_half_angle_def)

text \<open>
  C9. Whatever the analysis options of the parent class are, the default analysis options
  of \<^verbatim>\<open>HalfAngle\<close> bound \<^verbatim>\<open>d_theta\<close> by exactly (-pi/2, pi/2).
\<close>

theorem half_angle_d_theta_bounds:
  "ao_bounds (default_analysis_options super_options) ''d_theta'' = Some (- pi / 2, pi / 2)"
  by (simp add: default_analysis_options_def Let_def)

end
